theory Spec2Isabelle
  imports Main
begin

section \<open>The Hydrawise client (\<^verbatim>\<open>pydrawise/client.py\<close>)\<close>

text \<open>
  The client is a thin binding: each public method builds one GraphQL selection, sends it
  through a freshly built \<^verbatim>\<open>gql\<close> client and either deserialises the answer (queries) or
  inspects its status envelope (mutations). The embedding below is state passing: the
  Python object \<^verbatim>\<open>self\<close>, the state owned by the collaborators and the sequence of
  things the client did at its boundary are threaded through every method. Exceptions
  are values of a sum type, \<open>Inl\<close> carrying the exception.
\<close>

subsection \<open>Python values, truthiness and subscripting\<close>

text \<open>
  What \<^verbatim>\<open>session.execute\<close> hands back with \<^verbatim>\<open>parse_results=True\<close>: \<^verbatim>\<open>None\<close>, booleans,
  integers, strings, lists and dictionaries. A dictionary is an association list in
  insertion order, looked up with \<open>map_of\<close>. Floating point numbers are left out.
\<close>

datatype pyval =
    PNone
  | PBool bool
  | PInt int
  | PStr string
  | PList "pyval list"
  | PDict "(string \<times> pyval) list"

text \<open>
  The exceptions a call can end with. \<open>MutationError None\<close> is the exception raised
  bare (\<^verbatim>\<open>raise MutationError\<close>), \<open>MutationError (Some v)\<close> is \<^verbatim>\<open>MutationError(v)\<close>.
  \<open>KeyError\<close> and \<open>TypeError\<close> come from subscripting; \<open>CollaboratorError\<close> stands for
  whatever the authentication helper, the transport or the deserialiser raise.
\<close>

datatype error =
    MutationError "pyval option"
  | KeyError string
  | TypeError
  | CollaboratorError string

text \<open>\<^verbatim>\<open>isinstance(v, dict)\<close>.\<close>

fun isinstance_dict :: "pyval \<Rightarrow> bool" where
  "isinstance_dict (PDict m) = True"
| "isinstance_dict v = False"

text \<open>\<^verbatim>\<open>bool(v)\<close>, the test behind \<^verbatim>\<open>not v\<close>.\<close>

fun truthy :: "pyval \<Rightarrow> bool" where
  "truthy PNone = False"
| "truthy (PBool b) = b"
| "truthy (PInt i) = (i \<noteq> 0)"
| "truthy (PStr s) = (s \<noteq> [])"
| "truthy (PList xs) = (xs \<noteq> [])"
| "truthy (PDict m) = (m \<noteq> [])"

text \<open>
  \<^verbatim>\<open>v[k]\<close> with a string key: a dictionary answers or raises \<^verbatim>\<open>KeyError\<close>, every other
  value of the model raises \<^verbatim>\<open>TypeError\<close>.
\<close>

fun getitem :: "pyval \<Rightarrow> string \<Rightarrow> error + pyval" where
  "getitem (PDict m) k = (case map_of m k of None \<Rightarrow> Inl (KeyError k) | Some v \<Rightarrow> Inr v)"
| "getitem v k = Inl TypeError"

text \<open>\<^verbatim>\<open>d[k] = v\<close> on a dictionary: an existing key keeps its place, a new one goes last.\<close>

definition setitem :: "(string \<times> pyval) list \<Rightarrow> string \<Rightarrow> pyval \<Rightarrow> (string \<times> pyval) list" where
  "setitem d k v =
     (if k \<in> fst ` set d then map (\<lambda>(k', v'). if k' = k then (k', v) else (k', v')) d
      else d @ [(k, v)])"

text \<open>A parameter with a default value: \<open>None\<close> is the argument left out by the caller.\<close>

definition default_arg :: "'a \<Rightarrow> 'a option \<Rightarrow> 'a" where
  "default_arg d a = (case a of None \<Rightarrow> d | Some x \<Rightarrow> x)"

subsection \<open>Domain records and the \<^verbatim>\<open>gql\<close> DSL\<close>

text \<open>
  Of the schema's records the client reads the \<^verbatim>\<open>id\<close> attribute only. \<open>datetime\<close> is
  Python's: wall-clock fields and an optional offset from UTC in minutes.
\<close>

record zone =
  zone_id :: int

record controller =
  controller_id :: int

record zone_suspension =
  suspension_id :: int

record datetime =
  year :: int
  month :: int
  day :: int
  hour :: int
  minute :: int
  second :: int
  microsecond :: int
  tzinfo :: "int option"

text \<open>The schema's wire date-time, of which the client reads \<^verbatim>\<open>.value\<close>.\<close>

record date_time =
  dt_value :: pyval

text \<open>The types handed to \<^verbatim>\<open>get_selectors\<close> and \<^verbatim>\<open>deserialize\<close>.\<close>

datatype pytype = User | Controller | Zone | StatusCodeAndSummary | ListOf pytype

text \<open>
  A DSL field: the schema type it belongs to, its name, its arguments and its selection
  set. \<^verbatim>\<open>DSL_SCHEMA.T.f\<close> is \<open>schema_field T f\<close>; \<^verbatim>\<open>.args(**kw)\<close> and \<^verbatim>\<open>.select(*fs)\<close> add
  to it. Validation of names and values against the schema belongs to the library.
\<close>

datatype dsl_field =
  DSLField (field_parent: string) (field_name: string)
           (field_args: "(string \<times> pyval) list") (field_selection: "dsl_field list")

definition schema_field :: "string \<Rightarrow> string \<Rightarrow> dsl_field" where
  "schema_field parent n = DSLField parent n [] []"

fun with_args :: "dsl_field \<Rightarrow> (string \<times> pyval) list \<Rightarrow> dsl_field" where
  "with_args (DSLField p n as sel) kwargs = DSLField p n (as @ kwargs) sel"

fun select :: "dsl_field \<Rightarrow> dsl_field list \<Rightarrow> dsl_field" where
  "select (DSLField p n as sel) fs = DSLField p n as (sel @ fs)"

text \<open>\<^verbatim>\<open>dsl_gql(DSLQuery(f))\<close> and \<^verbatim>\<open>dsl_gql(DSLMutation(f))\<close>.\<close>

datatype document = DSLQuery dsl_field | DSLMutation dsl_field

fun document_field :: "document \<Rightarrow> dsl_field" where
  "document_field (DSLQuery f) = f"
| "document_field (DSLMutation f) = f"

definition API_URL :: string where
  "API_URL = ''https://app.hydrawise.com/api/v2/graph''"

record aiohttp_transport =
  url :: string
  headers :: "(string \<times> string) list"

record gql_client =
  transport :: aiohttp_transport
  parse_results :: bool

subsection \<open>Collaborators and state\<close>

text \<open>
  The collaborators are parameters. \<open>token\<close> is \<^verbatim>\<open>Auth.token()\<close> on the referenced
  authentication object and \<open>execute\<close> is \<^verbatim>\<open>session.execute\<close>; both act on a state \<open>'w\<close>
  of their own (cached tokens, the server) and may raise. \<open>get_selectors\<close> and
  \<open>to_json\<close> (\<^verbatim>\<open>DateTime.to_json\<close>) are pure and taken to return; \<open>deserialize\<close> may
  raise.
\<close>

record ('w, 'obj) env =
  token :: "nat \<Rightarrow> 'w \<Rightarrow> (error + string) \<times> 'w"
  execute :: "gql_client \<Rightarrow> document \<Rightarrow> 'w \<Rightarrow> (error + pyval) \<times> 'w"
  get_selectors :: "pytype \<Rightarrow> dsl_field list"
  deserialize :: "pytype \<Rightarrow> pyval \<Rightarrow> error + 'obj"
  to_json :: "datetime \<Rightarrow> date_time"

text \<open>What the client does at its boundary, in order.\<close>

datatype event =
    AuthToken "error + string"
  | SessionOpened gql_client
  | Executed gql_client document "error + pyval"
  | SessionClosed gql_client

text \<open>The client object: \<^verbatim>\<open>self._auth\<close>, a reference to the authentication object.\<close>

record hydrawise =
  auth :: nat

record 'w state =
  self :: hydrawise
  remote :: 'w
  trace :: "event list"

text \<open>\<^verbatim>\<open>Hydrawise.__init__\<close>.\<close>

definition init :: "nat \<Rightarrow> hydrawise" where
  "init a = \<lparr>auth = a\<rparr>"

subsection \<open>The private methods\<close>

text \<open>\<^verbatim>\<open>Hydrawise._client\<close>: ask for a token, build transport and client around it.\<close>

definition hydrawise_client ::
  "('w, 'obj) env \<Rightarrow> 'w state \<Rightarrow> (error + gql_client) \<times> 'w state" where
  "hydrawise_client env s =
     (case token env (auth (self s)) (remote s) of
        (Inl e, w) \<Rightarrow> (Inl e, s\<lparr>remote := w, trace := trace s @ [AuthToken (Inl e)]\<rparr>)
      | (Inr t, w) \<Rightarrow>
          (Inr \<lparr>transport = \<lparr>url = API_URL, headers = [(''Authorization'', t)]\<rparr>,
                parse_results = True\<rparr>,
           s\<lparr>remote := w, trace := trace s @ [AuthToken (Inr t)]\<rparr>))"

text \<open>
  Entering and leaving \<^verbatim>\<open>async with client as session\<close>, and \<^verbatim>\<open>session.execute\<close>.
  Connecting and closing the transport are recorded and taken not to raise; the block is
  left through \<open>aexit\<close> whether its body returns or raises, and an exception of the body
  goes on to the caller.
\<close>

definition aenter :: "gql_client \<Rightarrow> 'w state \<Rightarrow> 'w state" where
  "aenter c s = s\<lparr>trace := trace s @ [SessionOpened c]\<rparr>"

definition aexit :: "gql_client \<Rightarrow> 'w state \<Rightarrow> 'w state" where
  "aexit c s = s\<lparr>trace := trace s @ [SessionClosed c]\<rparr>"

definition session_execute ::
  "('w, 'obj) env \<Rightarrow> gql_client \<Rightarrow> document \<Rightarrow> 'w state \<Rightarrow> (error + pyval) \<times> 'w state" where
  "session_execute env c doc s =
     (case execute env c doc (remote s) of
        (r, w) \<Rightarrow> (r, s\<lparr>remote := w, trace := trace s @ [Executed c doc r]\<rparr>))"

text \<open>\<^verbatim>\<open>Hydrawise._query\<close>. The session is left on both ways out of the block.\<close>

definition hydrawise_query ::
  "('w, 'obj) env \<Rightarrow> dsl_field \<Rightarrow> 'w state \<Rightarrow> (error + pyval) \<times> 'w state" where
  "hydrawise_query env selector s =
     (case hydrawise_client env s of
        (Inl e, s1) \<Rightarrow> (Inl e, s1)
      | (Inr session, s1) \<Rightarrow>
          (case session_execute env session (DSLQuery selector) (aenter session s1) of
             (r, s2) \<Rightarrow> (r, aexit session s2)))"

text \<open>\<^verbatim>\<open>Hydrawise._mutation\<close>. Falling off the end of the method returns \<^verbatim>\<open>None\<close>.\<close>

definition hydrawise_mutation ::
  "('w, 'obj) env \<Rightarrow> dsl_field \<Rightarrow> 'w state \<Rightarrow> (error + unit) \<times> 'w state" where
  "hydrawise_mutation env selector s =
     (case hydrawise_client env s of
        (Inl e, s1) \<Rightarrow> (Inl e, s1)
      | (Inr session, s1) \<Rightarrow>
          (case session_execute env session (DSLMutation selector) (aenter session s1) of
             (Inl e, s2) \<Rightarrow> (Inl e, aexit session s2)
           | (Inr result, s2) \<Rightarrow>
               ((case getitem result (field_name selector) of
                   Inl e \<Rightarrow> Inl e
                 | Inr resp \<Rightarrow>
                     if isinstance_dict resp then
                       (case getitem resp ''status'' of
                          Inl e \<Rightarrow> Inl e
                        | Inr status \<Rightarrow>
                            if status \<notin> set [PStr ''OK'', PStr ''WARNING''] then
                              (case getitem resp ''summary'' of
                                 Inl e \<Rightarrow> Inl e
                               | Inr summary \<Rightarrow> Inl (MutationError (Some summary)))
                            else Inr ())
                     else if \<not> truthy resp then Inl (MutationError None)
                     else Inr ()),
                aexit session s2)))"

subsection \<open>Queries\<close>

text \<open>
  Each query sends one selection and deserialises what it finds at a fixed key path of
  the answer; the subscripts are unguarded.
\<close>

definition get_user :: "('w, 'obj) env \<Rightarrow> 'w state \<Rightarrow> (error + 'obj) \<times> 'w state" where
  "get_user env s =
     (case hydrawise_query env
             (select (schema_field ''Query'' ''me'') (get_selectors env User)) s of
        (Inl e, s1) \<Rightarrow> (Inl e, s1)
      | (Inr result, s1) \<Rightarrow>
          ((case getitem result ''me'' of
              Inl e \<Rightarrow> Inl e
            | Inr me \<Rightarrow> deserialize env User me), s1))"

definition get_controllers :: "('w, 'obj) env \<Rightarrow> 'w state \<Rightarrow> (error + 'obj) \<times> 'w state" where
  "get_controllers env s =
     (case hydrawise_query env
             (select (schema_field ''Query'' ''me'')
                [select (schema_field ''User'' ''controllers'') (get_selectors env Controller)]) s of
        (Inl e, s1) \<Rightarrow> (Inl e, s1)
      | (Inr result, s1) \<Rightarrow>
          ((case getitem result ''me'' of
              Inl e \<Rightarrow> Inl e
            | Inr me \<Rightarrow>
                (case getitem me ''controllers'' of
                   Inl e \<Rightarrow> Inl e
                 | Inr cs \<Rightarrow> deserialize env (ListOf Controller) cs)), s1))"

definition get_controller ::
  "('w, 'obj) env \<Rightarrow> int \<Rightarrow> 'w state \<Rightarrow> (error + 'obj) \<times> 'w state" where
  "get_controller env controller_id' s =
     (case hydrawise_query env
             (select (with_args (schema_field ''Query'' ''controller'')
                        [(''controllerId'', PInt controller_id')])
                (get_selectors env Controller)) s of
        (Inl e, s1) \<Rightarrow> (Inl e, s1)
      | (Inr result, s1) \<Rightarrow>
          ((case getitem result ''controller'' of
              Inl e \<Rightarrow> Inl e
            | Inr c \<Rightarrow> deserialize env Controller c), s1))"

definition get_zones ::
  "('w, 'obj) env \<Rightarrow> controller \<Rightarrow> 'w state \<Rightarrow> (error + 'obj) \<times> 'w state" where
  "get_zones env controller s =
     (case hydrawise_query env
             (select (with_args (schema_field ''Query'' ''controller'')
                        [(''controllerId'', PInt (controller_id controller))])
                [select (schema_field ''Controller'' ''zones'') (get_selectors env Zone)]) s of
        (Inl e, s1) \<Rightarrow> (Inl e, s1)
      | (Inr result, s1) \<Rightarrow>
          ((case getitem result ''controller'' of
              Inl e \<Rightarrow> Inl e
            | Inr c \<Rightarrow>
                (case getitem c ''zones'' of
                   Inl e \<Rightarrow> Inl e
                 | Inr zs \<Rightarrow> deserialize env (ListOf Zone) zs)), s1))"

definition get_zone ::
  "('w, 'obj) env \<Rightarrow> int \<Rightarrow> 'w state \<Rightarrow> (error + 'obj) \<times> 'w state" where
  "get_zone env zone_id' s =
     (case hydrawise_query env
             (select (with_args (schema_field ''Query'' ''zone'') [(''zoneId'', PInt zone_id')])
                (get_selectors env Zone)) s of
        (Inl e, s1) \<Rightarrow> (Inl e, s1)
      | (Inr result, s1) \<Rightarrow>
          ((case getitem result ''zone'' of
              Inl e \<Rightarrow> Inl e
            | Inr z \<Rightarrow> deserialize env Zone z), s1))"

subsection \<open>Mutations\<close>

text \<open>
  \<^verbatim>\<open>start_zone\<close> and \<^verbatim>\<open>start_all_zones\<close> build their keyword arguments in a dictionary
  and add the duration only when it is positive. Their optional parameters default to
  \<^verbatim>\<open>False\<close>, \<^verbatim>\<open>0\<close> and \<^verbatim>\<open>False\<close>.
\<close>

definition start_zone ::
  "('w, 'obj) env \<Rightarrow> zone \<Rightarrow> bool option \<Rightarrow> int option \<Rightarrow> bool option \<Rightarrow>
     'w state \<Rightarrow> (error + unit) \<times> 'w state" where
  "start_zone env zone mark_run_as_scheduled custom_run_duration stack_runs s =
     (let mark_run_as_scheduled = default_arg False mark_run_as_scheduled;
          custom_run_duration = default_arg 0 custom_run_duration;
          stack_runs = default_arg False stack_runs;
          kwargs = [(''zoneId'', PInt (zone_id zone)),
                    (''markRunAsScheduled'', PBool mark_run_as_scheduled),
                    (''stackRuns'', PBool stack_runs)];
          kwargs = (if custom_run_duration > 0
                    then setitem kwargs ''customRunDuration'' (PInt custom_run_duration)
                    else kwargs)
      in hydrawise_mutation env
           (select (with_args (schema_field ''Mutation'' ''startZone'') kwargs)
              (get_selectors env StatusCodeAndSummary)) s)"

definition stop_zone ::
  "('w, 'obj) env \<Rightarrow> zone \<Rightarrow> 'w state \<Rightarrow> (error + unit) \<times> 'w state" where
  "stop_zone env zone s =
     hydrawise_mutation env
       (select (with_args (schema_field ''Mutation'' ''stopZone'')
                  [(''zoneId'', PInt (zone_id zone))])
          (get_selectors env StatusCodeAndSummary)) s"

definition start_all_zones ::
  "('w, 'obj) env \<Rightarrow> controller \<Rightarrow> bool option \<Rightarrow> int option \<Rightarrow>
     'w state \<Rightarrow> (error + unit) \<times> 'w state" where
  "start_all_zones env controller mark_run_as_scheduled custom_run_duration s =
     (let mark_run_as_scheduled = default_arg False mark_run_as_scheduled;
          custom_run_duration = default_arg 0 custom_run_duration;
          kwargs = [(''controllerId'', PInt (controller_id controller)),
                    (''markRunAsScheduled'', PBool mark_run_as_scheduled)];
          kwargs = (if custom_run_duration > 0
                    then setitem kwargs ''customRunDuration'' (PInt custom_run_duration)
                    else kwargs)
      in hydrawise_mutation env
           (select (with_args (schema_field ''Mutation'' ''startAllZones'') kwargs)
              (get_selectors env StatusCodeAndSummary)) s)"

definition stop_all_zones ::
  "('w, 'obj) env \<Rightarrow> controller \<Rightarrow> 'w state \<Rightarrow> (error + unit) \<times> 'w state" where
  "stop_all_zones env controller s =
     hydrawise_mutation env
       (select (with_args (schema_field ''Mutation'' ''stopAllZones'')
                  [(''controllerId'', PInt (controller_id controller))])
          (get_selectors env StatusCodeAndSummary)) s"

definition suspend_zone ::
  "('w, 'obj) env \<Rightarrow> zone \<Rightarrow> datetime \<Rightarrow> 'w state \<Rightarrow> (error + unit) \<times> 'w state" where
  "suspend_zone env zone until s =
     hydrawise_mutation env
       (select (with_args (schema_field ''Mutation'' ''suspendZone'')
                  [(''zoneId'', PInt (zone_id zone)),
                   (''until'', dt_value (to_json env until))])
          (get_selectors env StatusCodeAndSummary)) s"

definition resume_zone ::
  "('w, 'obj) env \<Rightarrow> zone \<Rightarrow> 'w state \<Rightarrow> (error + unit) \<times> 'w state" where
  "resume_zone env zone s =
     hydrawise_mutation env
       (select (with_args (schema_field ''Mutation'' ''resumeZone'')
                  [(''zoneId'', PInt (zone_id zone))])
          (get_selectors env StatusCodeAndSummary)) s"

definition suspend_all_zones ::
  "('w, 'obj) env \<Rightarrow> controller \<Rightarrow> datetime \<Rightarrow> 'w state \<Rightarrow> (error + unit) \<times> 'w state" where
  "suspend_all_zones env controller until s =
     hydrawise_mutation env
       (select (with_args (schema_field ''Mutation'' ''suspendAllZones'')
                  [(''controllerId'', PInt (controller_id controller)),
                   (''until'', dt_value (to_json env until))])
          (get_selectors env StatusCodeAndSummary)) s"

definition resume_all_zones ::
  "('w, 'obj) env \<Rightarrow> controller \<Rightarrow> 'w state \<Rightarrow> (error + unit) \<times> 'w state" where
  "resume_all_zones env controller s =
     hydrawise_mutation env
       (select (with_args (schema_field ''Mutation'' ''resumeAllZones'')
                  [(''controllerId'', PInt (controller_id controller))])
          (get_selectors env StatusCodeAndSummary)) s"

definition delete_zone_suspension ::
  "('w, 'obj) env \<Rightarrow> zone_suspension \<Rightarrow> 'w state \<Rightarrow> (error + unit) \<times> 'w state" where
  "delete_zone_suspension env suspension s =
     hydrawise_mutation env
       (select (with_args (schema_field ''Mutation'' ''deleteZoneSuspension'')
                  [(''id'', PInt (suspension_id suspension))])
          []) s"

subsection \<open>Calls and their observable behaviour\<close>

text \<open>
  A call names a public method with its arguments, so that a statement can range over
  all of them. \<open>invoke\<close> runs the method; a query answers \<open>Some\<close> object, a mutation
  answers \<^verbatim>\<open>None\<close>.
\<close>

datatype call =
    GetUser
  | GetControllers
  | GetController int
  | GetZones controller
  | GetZone int
  | StartZone zone "bool option" "int option" "bool option"
  | StopZone zone
  | StartAllZones controller "bool option" "int option"
  | StopAllZones controller
  | SuspendZone zone datetime
  | ResumeZone zone
  | SuspendAllZones controller datetime
  | ResumeAllZones controller
  | DeleteZoneSuspension zone_suspension

fun is_mutation :: "call \<Rightarrow> bool" where
  "is_mutation GetUser = False"
| "is_mutation GetControllers = False"
| "is_mutation (GetController i) = False"
| "is_mutation (GetZones c) = False"
| "is_mutation (GetZone i) = False"
| "is_mutation c = True"

definition returning :: "(error + 'obj) \<times> 's \<Rightarrow> (error + 'obj option) \<times> 's" where
  "returning r = (case r of (Inl e, s) \<Rightarrow> (Inl e, s) | (Inr v, s) \<Rightarrow> (Inr (Some v), s))"

definition returning_none :: "(error + unit) \<times> 's \<Rightarrow> (error + 'obj option) \<times> 's" where
  "returning_none r = (case r of (Inl e, s) \<Rightarrow> (Inl e, s) | (Inr u, s) \<Rightarrow> (Inr None, s))"

fun invoke :: "('w, 'obj) env \<Rightarrow> call \<Rightarrow> 'w state \<Rightarrow> (error + 'obj option) \<times> 'w state" where
  "invoke env GetUser s = returning (get_user env s)"
| "invoke env GetControllers s = returning (get_controllers env s)"
| "invoke env (GetController i) s = returning (get_controller env i s)"
| "invoke env (GetZones c) s = returning (get_zones env c s)"
| "invoke env (GetZone i) s = returning (get_zone env i s)"
| "invoke env (StartZone z m d k) s = returning_none (start_zone env z m d k s)"
| "invoke env (StopZone z) s = returning_none (stop_zone env z s)"
| "invoke env (StartAllZones c m d) s = returning_none (start_all_zones env c m d s)"
| "invoke env (StopAllZones c) s = returning_none (stop_all_zones env c s)"
| "invoke env (SuspendZone z u) s = returning_none (suspend_zone env z u s)"
| "invoke env (ResumeZone z) s = returning_none (resume_zone env z s)"
| "invoke env (SuspendAllZones c u) s = returning_none (suspend_all_zones env c u s)"
| "invoke env (ResumeAllZones c) s = returning_none (resume_all_zones env c s)"
| "invoke env (DeleteZoneSuspension x) s = returning_none (delete_zone_suspension env x s)"

text \<open>The events a computation adds to the trace.\<close>

definition events :: "('w state \<Rightarrow> 'r \<times> 'w state) \<Rightarrow> 'w state \<Rightarrow> event list" where
  "events m s = drop (length (trace s)) (trace (snd (m s)))"

text \<open>The client \<^verbatim>\<open>_client\<close> builds around a token.\<close>

definition client_for :: "string \<Rightarrow> gql_client" where
  "client_for t =
     \<lparr>transport = \<lparr>url = API_URL, headers = [(''Authorization'', t)]\<rparr>, parse_results = True\<rparr>"

subsection \<open>A scripted collaborator\<close>

text \<open>
  For concrete runs: the authentication object counts how often it was asked and puts the
  count into the token, the server answers every request with the same reply, the
  deserialiser hands the payload on, and the wire date-time of a timestamp is a string
  that ends in its offset.
\<close>

definition scripted_token :: "nat \<Rightarrow> nat \<Rightarrow> (error + string) \<times> nat" where
  "scripted_token a n = (Inr (''token'' @ replicate n CHR ''+''), Suc n)"

definition scripted_to_json :: "datetime \<Rightarrow> date_time" where
  "scripted_to_json d =
     \<lparr>dt_value = PStr (case tzinfo d of None \<Rightarrow> ''naive'' | Some off \<Rightarrow>
                         (if off = 0 then ''utc'' else ''offset''))\<rparr>"

definition scripted :: "pyval \<Rightarrow> (nat, pyval) env" where
  "scripted reply =
     \<lparr>token = scripted_token,
      execute = (\<lambda>c d n. (Inr reply, n)),
      get_selectors = (\<lambda>t. [schema_field ''T'' ''id'']),
      deserialize = (\<lambda>t v. Inr v),
      to_json = scripted_to_json\<rparr>"

definition start :: "nat state" where
  "start = \<lparr>self = init 7, remote = 0, trace = []\<rparr>"

section \<open>Properties\<close>

subsection \<open>What the private methods do\<close>

text \<open>
  The events, the result, the client object and the collaborators' state after
  \<^verbatim>\<open>_query\<close> and \<^verbatim>\<open>_mutation\<close>, in terms of what the collaborators answer.
\<close>

lemma snd_returning [simp]: "snd (returning r) = snd r"
  by (simp add: returning_def split: prod.splits sum.splits)

lemma snd_returning_none [simp]: "snd (returning_none r) = snd r"
  by (simp add: returning_none_def split: prod.splits sum.splits)

lemma fst_returning_none: "fst (returning_none r) = (case fst r of Inl e \<Rightarrow> Inl e | Inr u \<Rightarrow> Inr None)"
  by (simp add: returning_none_def split: prod.splits sum.splits)

lemma fst_returning: "fst (returning r) = (case fst r of Inl e \<Rightarrow> Inl e | Inr v \<Rightarrow> Inr (Some v))"
  by (simp add: returning_def split: prod.splits sum.splits)

lemma client_run:
  "hydrawise_client env s =
     (case token env (auth (self s)) (remote s) of
        (Inl e, w) \<Rightarrow> (Inl e, s\<lparr>remote := w, trace := trace s @ [AuthToken (Inl e)]\<rparr>)
      | (Inr t, w) \<Rightarrow> (Inr (client_for t), s\<lparr>remote := w, trace := trace s @ [AuthToken (Inr t)]\<rparr>))"
  by (simp add: hydrawise_client_def client_for_def split: prod.splits sum.splits)

lemma mutation_events:
  "events (hydrawise_mutation env sel) s =
     (case token env (auth (self s)) (remote s) of
        (Inl e, w) \<Rightarrow> [AuthToken (Inl e)]
      | (Inr t, w) \<Rightarrow>
          [AuthToken (Inr t), SessionOpened (client_for t),
           Executed (client_for t) (DSLMutation sel)
             (fst (execute env (client_for t) (DSLMutation sel) w)),
           SessionClosed (client_for t)])"
  by (simp add: events_def hydrawise_mutation_def client_run session_execute_def
      aenter_def aexit_def split: prod.splits sum.splits)

lemma query_events:
  "events (hydrawise_query env sel) s =
     (case token env (auth (self s)) (remote s) of
        (Inl e, w) \<Rightarrow> [AuthToken (Inl e)]
      | (Inr t, w) \<Rightarrow>
          [AuthToken (Inr t), SessionOpened (client_for t),
           Executed (client_for t) (DSLQuery sel)
             (fst (execute env (client_for t) (DSLQuery sel) w)),
           SessionClosed (client_for t)])"
  by (simp add: events_def hydrawise_query_def client_run session_execute_def
      aenter_def aexit_def split: prod.splits sum.splits)

lemma mutation_result:
  "fst (hydrawise_mutation env sel s) =
     (case token env (auth (self s)) (remote s) of
        (Inl e, w) \<Rightarrow> Inl e
      | (Inr t, w) \<Rightarrow>
          (case fst (execute env (client_for t) (DSLMutation sel) w) of
             Inl e \<Rightarrow> Inl e
           | Inr result \<Rightarrow>
               (case getitem result (field_name sel) of
                  Inl e \<Rightarrow> Inl e
                | Inr resp \<Rightarrow>
                    if isinstance_dict resp then
                      (case getitem resp ''status'' of
                         Inl e \<Rightarrow> Inl e
                       | Inr status \<Rightarrow>
                           if status = PStr ''OK'' \<or> status = PStr ''WARNING'' then Inr ()
                           else (case getitem resp ''summary'' of
                                   Inl e \<Rightarrow> Inl e
                                 | Inr summary \<Rightarrow> Inl (MutationError (Some summary))))
                    else if truthy resp then Inr () else Inl (MutationError None))))"
  by (simp add: hydrawise_mutation_def client_run session_execute_def
      aenter_def aexit_def split: prod.splits sum.splits)

lemma query_result:
  "fst (hydrawise_query env sel s) =
     (case token env (auth (self s)) (remote s) of
        (Inl e, w) \<Rightarrow> Inl e
      | (Inr t, w) \<Rightarrow> fst (execute env (client_for t) (DSLQuery sel) w))"
  by (simp add: hydrawise_query_def client_run session_execute_def
      aenter_def aexit_def split: prod.splits sum.splits)

lemma mutation_self: "self (snd (hydrawise_mutation env sel s)) = self s"
  by (simp add: hydrawise_mutation_def client_run session_execute_def
      aenter_def aexit_def split: prod.splits sum.splits)

lemma query_self: "self (snd (hydrawise_query env sel s)) = self s"
  by (simp add: hydrawise_query_def client_run session_execute_def
      aenter_def aexit_def split: prod.splits sum.splits)

lemma mutation_remote:
  "remote (snd (hydrawise_mutation env sel s)) =
     (case token env (auth (self s)) (remote s) of
        (Inl e, w) \<Rightarrow> w
      | (Inr t, w) \<Rightarrow> snd (execute env (client_for t) (DSLMutation sel) w))"
  by (simp add: hydrawise_mutation_def client_run session_execute_def
      aenter_def aexit_def split: prod.splits sum.splits)

lemma query_remote:
  "remote (snd (hydrawise_query env sel s)) =
     (case token env (auth (self s)) (remote s) of
        (Inl e, w) \<Rightarrow> w
      | (Inr t, w) \<Rightarrow> snd (execute env (client_for t) (DSLQuery sel) w))"
  by (simp add: hydrawise_query_def client_run session_execute_def
      aenter_def aexit_def split: prod.splits sum.splits)

lemma mutation_executed:
  assumes "Executed c doc r \<in> set (events (hydrawise_mutation env sel) s)"
  shows "\<exists>t w. token env (auth (self s)) (remote s) = (Inr t, w) \<and> c = client_for t \<and>
           doc = DSLMutation sel \<and> r = fst (execute env c doc w)"
proof (cases "token env (auth (self s)) (remote s)")
  case (Pair a w)
  show ?thesis
  proof (cases a)
    case (Inl e)
    with Pair assms show ?thesis by (simp add: mutation_events)
  next
    case (Inr t)
    with Pair assms show ?thesis by (simp add: mutation_events)
  qed
qed

lemma query_executed:
  assumes "Executed c doc r \<in> set (events (hydrawise_query env sel) s)"
  shows "\<exists>t w. token env (auth (self s)) (remote s) = (Inr t, w) \<and> c = client_for t \<and>
           doc = DSLQuery sel \<and> r = fst (execute env c doc w)"
proof (cases "token env (auth (self s)) (remote s)")
  case (Pair a w)
  show ?thesis
  proof (cases a)
    case (Inl e)
    with Pair assms show ?thesis by (simp add: query_events)
  next
    case (Inr t)
    with Pair assms show ?thesis by (simp add: query_events)
  qed
qed

lemma events_cong: "f s = g s \<Longrightarrow> events f s = events g s"
  by (simp add: events_def)



lemma after_query_snd:
  "snd (case q of (Inl e, s1) \<Rightarrow> (Inl e, s1) | (Inr result, s1) \<Rightarrow> (f result, s1)) = snd q"
  by (simp split: prod.splits sum.splits)

lemma after_query_fst:
  "fst (case q of (Inl e, s1) \<Rightarrow> (Inl e, s1) | (Inr result, s1) \<Rightarrow> (f result, s1)) =
     (case fst q of Inl e \<Rightarrow> Inl e | Inr result \<Rightarrow> f result)"
  by (simp split: prod.splits sum.splits)

lemma invoke_mutation:
  "is_mutation call \<Longrightarrow> \<exists>sel. \<forall>s. invoke env call s = returning_none (hydrawise_mutation env sel s)"
  by (cases call) (auto simp: start_zone_def stop_zone_def start_all_zones_def stop_all_zones_def
      suspend_zone_def resume_zone_def suspend_all_zones_def resume_all_zones_def
      delete_zone_suspension_def Let_def)

lemma invoke_query:
  "\<not> is_mutation call \<Longrightarrow>
     \<exists>sel f. \<forall>s. invoke env call s =
       (case hydrawise_query env sel s of
          (Inl e, s1) \<Rightarrow> (Inl e, s1)
        | (Inr result, s1) \<Rightarrow> (f result, s1))"
proof (cases call)
  case GetUser
  have "\<forall>s. invoke env call s =
       (case hydrawise_query env (select (schema_field ''Query'' ''me'') (get_selectors env User)) s of
          (Inl e, s1) \<Rightarrow> (Inl e, s1)
        | (Inr result, s1) \<Rightarrow>
            ((case (case getitem result ''me'' of Inl e \<Rightarrow> Inl e
                    | Inr me \<Rightarrow> deserialize env User me) of
                Inl e \<Rightarrow> Inl e | Inr v \<Rightarrow> Inr (Some v)), s1))"
    by (simp add: GetUser get_user_def returning_def split: prod.splits sum.splits)
  then show ?thesis by - (rule exI, rule exI, assumption)
next
  case GetControllers
  have "\<forall>s. invoke env call s =
       (case hydrawise_query env (select (schema_field ''Query'' ''me'')
                [select (schema_field ''User'' ''controllers'') (get_selectors env Controller)]) s of
          (Inl e, s1) \<Rightarrow> (Inl e, s1)
        | (Inr result, s1) \<Rightarrow>
            ((case (case getitem result ''me'' of Inl e \<Rightarrow> Inl e
                    | Inr me \<Rightarrow> (case getitem me ''controllers'' of Inl e \<Rightarrow> Inl e
                        | Inr cs \<Rightarrow> deserialize env (ListOf Controller) cs)) of
                Inl e \<Rightarrow> Inl e | Inr v \<Rightarrow> Inr (Some v)), s1))"
    by (simp add: GetControllers get_controllers_def returning_def split: prod.splits sum.splits)
  then show ?thesis by - (rule exI, rule exI, assumption)
next
  case (GetController i)
  have "\<forall>s. invoke env call s =
       (case hydrawise_query env (select (with_args (schema_field ''Query'' ''controller'')
                        [(''controllerId'', PInt i)]) (get_selectors env Controller)) s of
          (Inl e, s1) \<Rightarrow> (Inl e, s1)
        | (Inr result, s1) \<Rightarrow>
            ((case (case getitem result ''controller'' of Inl e \<Rightarrow> Inl e
                    | Inr c \<Rightarrow> deserialize env Controller c) of
                Inl e \<Rightarrow> Inl e | Inr v \<Rightarrow> Inr (Some v)), s1))"
    by (simp add: GetController get_controller_def returning_def split: prod.splits sum.splits)
  then show ?thesis by - (rule exI, rule exI, assumption)
next
  case (GetZones ctl)
  have "\<forall>s. invoke env call s =
       (case hydrawise_query env (select (with_args (schema_field ''Query'' ''controller'')
                        [(''controllerId'', PInt (controller_id ctl))])
                [select (schema_field ''Controller'' ''zones'') (get_selectors env Zone)]) s of
          (Inl e, s1) \<Rightarrow> (Inl e, s1)
        | (Inr result, s1) \<Rightarrow>
            ((case (case getitem result ''controller'' of Inl e \<Rightarrow> Inl e
                    | Inr c \<Rightarrow> (case getitem c ''zones'' of Inl e \<Rightarrow> Inl e
                        | Inr zs \<Rightarrow> deserialize env (ListOf Zone) zs)) of
                Inl e \<Rightarrow> Inl e | Inr v \<Rightarrow> Inr (Some v)), s1))"
    by (simp add: GetZones get_zones_def returning_def split: prod.splits sum.splits)
  then show ?thesis by - (rule exI, rule exI, assumption)
next
  case (GetZone i)
  have "\<forall>s. invoke env call s =
       (case hydrawise_query env (select (with_args (schema_field ''Query'' ''zone'')
                        [(''zoneId'', PInt i)]) (get_selectors env Zone)) s of
          (Inl e, s1) \<Rightarrow> (Inl e, s1)
        | (Inr result, s1) \<Rightarrow>
            ((case (case getitem result ''zone'' of Inl e \<Rightarrow> Inl e
                    | Inr z \<Rightarrow> deserialize env Zone z) of
                Inl e \<Rightarrow> Inl e | Inr v \<Rightarrow> Inr (Some v)), s1))"
    by (simp add: GetZone get_zone_def returning_def split: prod.splits sum.splits)
  then show ?thesis by - (rule exI, rule exI, assumption)
qed simp_all


subsection \<open>Runs against the scripted collaborator\<close>

lemma scripted_token_start:
  "token (scripted reply) (auth (self start)) (remote start) = (Inr ''token'', Suc 0)"
  by (simp add: scripted_def scripted_token_def start_def init_def)

lemma scripted_selectors: "get_selectors (scripted reply) t = [DSLField ''T'' ''id'' [] []]"
  by (simp add: scripted_def schema_field_def)

lemma scripted_execute: "execute (scripted reply) c doc w = (Inr reply, w)"
  by (simp add: scripted_def)


lemma scripted_mutation_events:
  "events (hydrawise_mutation (scripted reply) sel) start =
     [AuthToken (Inr ''token''), SessionOpened (client_for ''token''),
      Executed (client_for ''token'') (DSLMutation sel) (Inr reply),
      SessionClosed (client_for ''token'')]"
  by (simp add: mutation_events scripted_token_start scripted_execute)

lemma scripted_query_events:
  "events (hydrawise_query (scripted reply) sel) start =
     [AuthToken (Inr ''token''), SessionOpened (client_for ''token''),
      Executed (client_for ''token'') (DSLQuery sel) (Inr reply),
      SessionClosed (client_for ''token'')]"
  by (simp add: query_events scripted_token_start scripted_execute)

lemma scripted_mutation_executed:
  assumes "m start = hydrawise_mutation (scripted reply) sel start"
  shows "Executed (client_for ''token'') (DSLMutation sel) (Inr reply) \<in> set (events m start)"
proof -
  have "events m start = events (hydrawise_mutation (scripted reply) sel) start"
    by (rule events_cong) (rule assms)
  then show ?thesis by (simp add: scripted_mutation_events)
qed


lemma scripted_query_executed:
  assumes "snd (m start) = snd (hydrawise_query (scripted reply) sel start)"
  shows "Executed (client_for ''token'') (DSLQuery sel) (Inr reply) \<in> set (events m start)"
proof -
  have "events m start = events (hydrawise_query (scripted reply) sel) start"
    by (simp add: events_def assms)
  then show ?thesis by (simp add: scripted_query_events)
qed


subsection \<open>The response envelope of a mutation\<close>

lemma mutation_outcome:
  assumes "Executed c doc (Inr result) \<in> set (events (hydrawise_mutation env sel) s)"
  shows "fst (hydrawise_mutation env sel s) =
     (case getitem result (field_name (document_field doc)) of
        Inl e \<Rightarrow> Inl e
      | Inr resp \<Rightarrow>
          if isinstance_dict resp then
            (case getitem resp ''status'' of
               Inl e \<Rightarrow> Inl e
             | Inr status \<Rightarrow>
                 if status = PStr ''OK'' \<or> status = PStr ''WARNING'' then Inr ()
                 else (case getitem resp ''summary'' of
                         Inl e \<Rightarrow> Inl e
                       | Inr summary \<Rightarrow> Inl (MutationError (Some summary))))
          else if truthy resp then Inr () else Inl (MutationError None))"
proof -
  from mutation_executed [OF assms] obtain t w where
    tok: "token env (auth (self s)) (remote s) = (Inr t, w)" and
    doc: "doc = DSLMutation sel" and
    res: "Inr result = fst (execute env (client_for t) (DSLMutation sel) w)"
    by auto
  show ?thesis
    by (simp add: mutation_result tok doc res [symmetric])
qed






subsection \<open>The arguments of the start requests\<close>






subsection \<open>Stopping zone 42\<close>

lemma stop_zone_request:
  "stop_zone env z s =
     hydrawise_mutation env (DSLField ''Mutation'' ''stopZone'' [(''zoneId'', PInt (zone_id z))]
        (get_selectors env StatusCodeAndSummary)) s"
  by (simp add: stop_zone_def schema_field_def)

text \<open>
  Claim C4. For a zone whose id is 42, \<^verbatim>\<open>stop_zone\<close> sends (whenever a token is
  obtained) a \<^verbatim>\<open>stopZone\<close> mutation whose arguments are \<^verbatim>\<open>zoneId = 42\<close>, and nothing else
  is ever sent; it returns \<^verbatim>\<open>None\<close> when the envelope has status \<^verbatim>\<open>"OK"\<close>, and raises
  \<^verbatim>\<open>MutationError("some summary")\<close> when the envelope has status \<^verbatim>\<open>"ERROR"\<close> and summary
  \<^verbatim>\<open>"some summary"\<close>.
\<close>

theorem stop_zone_example:
  assumes "zone_id z = 42"
  shows "(\<forall>t w. token env (auth (self s)) (remote s) = (Inr t, w) \<longrightarrow>
            (\<exists>c f r. Executed c (DSLMutation f) r \<in> set (events (stop_zone env z) s) \<and>
               field_name f = ''stopZone'' \<and> field_args f = [(''zoneId'', PInt 42)])) \<and>
         (\<forall>c doc r. Executed c doc r \<in> set (events (stop_zone env z) s) \<longrightarrow>
            (\<exists>f. doc = DSLMutation f \<and> field_name f = ''stopZone'' \<and>
               field_args f = [(''zoneId'', PInt 42)]) \<and>
            (\<forall>result m. r = Inr result \<and> getitem result ''stopZone'' = Inr (PDict m) \<and>
               map_of m ''status'' = Some (PStr ''OK'') \<longrightarrow>
               fst (stop_zone env z s) = Inr ()) \<and>
            (\<forall>result m. r = Inr result \<and> getitem result ''stopZone'' = Inr (PDict m) \<and>
               map_of m ''status'' = Some (PStr ''ERROR'') \<and>
               map_of m ''summary'' = Some (PStr ''some summary'') \<longrightarrow>
               fst (stop_zone env z s) = Inl (MutationError (Some (PStr ''some summary'')))))"
proof -
  let ?sel = "DSLField ''Mutation'' ''stopZone'' [(''zoneId'', PInt (zone_id z))]
        (get_selectors env StatusCodeAndSummary)"
  have ev: "events (stop_zone env z) s = events (hydrawise_mutation env ?sel) s"
    by (rule events_cong) (rule stop_zone_request)
  have issued: "\<exists>c f r. Executed c (DSLMutation f) r \<in> set (events (stop_zone env z) s) \<and>
               field_name f = ''stopZone'' \<and> field_args f = [(''zoneId'', PInt 42)]"
    if "token env (auth (self s)) (remote s) = (Inr t, w)" for t w
  proof -
    have "Executed (client_for t) (DSLMutation ?sel)
            (fst (execute env (client_for t) (DSLMutation ?sel) w))
          \<in> set (events (stop_zone env z) s)"
      by (simp add: ev mutation_events that)
    moreover have "field_name ?sel = ''stopZone''" by simp
    moreover have "field_args ?sel = [(''zoneId'', PInt 42)]" by (simp add: assms)
    ultimately show ?thesis by blast
  qed
  have sent: "(\<exists>f. doc = DSLMutation f \<and> field_name f = ''stopZone'' \<and>
               field_args f = [(''zoneId'', PInt 42)]) \<and>
            (\<forall>result m. r = Inr result \<and> getitem result ''stopZone'' = Inr (PDict m) \<and>
               map_of m ''status'' = Some (PStr ''OK'') \<longrightarrow>
               fst (stop_zone env z s) = Inr ()) \<and>
            (\<forall>result m. r = Inr result \<and> getitem result ''stopZone'' = Inr (PDict m) \<and>
               map_of m ''status'' = Some (PStr ''ERROR'') \<and>
               map_of m ''summary'' = Some (PStr ''some summary'') \<longrightarrow>
               fst (stop_zone env z s) = Inl (MutationError (Some (PStr ''some summary''))))"
    if "Executed c doc r \<in> set (events (stop_zone env z) s)" for c doc r
  proof -
    from that have ex: "Executed c doc r \<in> set (events (hydrawise_mutation env ?sel) s)"
      by (simp add: ev)
    from mutation_executed [OF ex] have doc: "doc = DSLMutation ?sel" by blast
    have a: "\<exists>f. doc = DSLMutation f \<and> field_name f = ''stopZone'' \<and>
               field_args f = [(''zoneId'', PInt 42)]"
      by (simp add: doc assms)
    have b: "fst (stop_zone env z s) = Inr ()"
      if "r = Inr result" "getitem result ''stopZone'' = Inr (PDict m)"
         "map_of m ''status'' = Some (PStr ''OK'')" for result m
    proof -
      from ex that(1) have "Executed c doc (Inr result) \<in> set (events (hydrawise_mutation env ?sel) s)"
        by simp
      from mutation_outcome [OF this] that(2,3) show ?thesis
        by (simp add: doc stop_zone_request)
    qed
    have c: "fst (stop_zone env z s) = Inl (MutationError (Some (PStr ''some summary'')))"
      if "r = Inr result" "getitem result ''stopZone'' = Inr (PDict m)"
         "map_of m ''status'' = Some (PStr ''ERROR'')"
         "map_of m ''summary'' = Some (PStr ''some summary'')" for result m
    proof -
      from ex that(1) have "Executed c doc (Inr result) \<in> set (events (hydrawise_mutation env ?sel) s)"
        by simp
      from mutation_outcome [OF this] that(2,3,4) show ?thesis
        by (simp add: doc stop_zone_request)
    qed
    from a b c show ?thesis by blast
  qed
  from issued sent show ?thesis by blast
qed

text \<open>The two answers of the example, from the scripted server.\<close>

theorem stop_zone_example_witness:
  "(\<exists>c f r. Executed c (DSLMutation f) r
        \<in> set (events (stop_zone (scripted (PDict [(''stopZone'',
              PDict [(''status'', PStr ''OK''), (''summary'', PStr '''')])]))
              \<lparr>zone_id = 42\<rparr>) start) \<and>
      field_name f = ''stopZone'' \<and> field_args f = [(''zoneId'', PInt 42)]) \<and>
   fst (stop_zone (scripted (PDict [(''stopZone'',
          PDict [(''status'', PStr ''OK''), (''summary'', PStr '''')])]))
        \<lparr>zone_id = 42\<rparr> start) = Inr () \<and>
   fst (stop_zone (scripted (PDict [(''stopZone'',
          PDict [(''status'', PStr ''ERROR''), (''summary'', PStr ''some summary'')])]))
        \<lparr>zone_id = 42\<rparr> start) = Inl (MutationError (Some (PStr ''some summary'')))"
proof -
  let ?z = "\<lparr>zone_id = 42\<rparr>"
  let ?mok = "[(''status'', PStr ''OK''), (''summary'', PStr '''')]"
  let ?merr = "[(''status'', PStr ''ERROR''), (''summary'', PStr ''some summary'')]"
  let ?ok = "PDict [(''stopZone'', PDict ?mok)]"
  let ?err = "PDict [(''stopZone'', PDict ?merr)]"
  let ?sel = "DSLField ''Mutation'' ''stopZone'' [(''zoneId'', PInt 42)]
            [DSLField ''T'' ''id'' [] []]"
  have z: "zone_id ?z = 42" by simp
  have e1: "Executed (client_for ''token'') (DSLMutation ?sel) (Inr ?ok)
              \<in> set (events (stop_zone (scripted ?ok) ?z) start)"
    by (rule scripted_mutation_executed)
       (simp add: stop_zone_def schema_field_def scripted_selectors)
  have e2: "Executed (client_for ''token'') (DSLMutation ?sel) (Inr ?err)
              \<in> set (events (stop_zone (scripted ?err) ?z) start)"
    by (rule scripted_mutation_executed)
       (simp add: stop_zone_def schema_field_def scripted_selectors)
  note ok = stop_zone_example [OF z, of "scripted ?ok" start]
  note err = stop_zone_example [OF z, of "scripted ?err" start]
  from ok scripted_token_start [of ?ok]
  have issued: "\<exists>c f r. Executed c (DSLMutation f) r
        \<in> set (events (stop_zone (scripted ?ok) ?z) start) \<and>
      field_name f = ''stopZone'' \<and> field_args f = [(''zoneId'', PInt 42)]"
    by blast
  have g1: "getitem ?ok ''stopZone'' = Inr (PDict ?mok)" by simp
  have s1: "map_of ?mok ''status'' = Some (PStr ''OK'')" by simp
  from ok e1 g1 s1 have r1: "fst (stop_zone (scripted ?ok) ?z start) = Inr ()"
    by blast
  have g2: "getitem ?err ''stopZone'' = Inr (PDict ?merr)" by simp
  have s2: "map_of ?merr ''status'' = Some (PStr ''ERROR'')" by simp
  have s3: "map_of ?merr ''summary'' = Some (PStr ''some summary'')" by simp
  from err e2 g2 s2 s3
  have r2: "fst (stop_zone (scripted ?err) ?z start) =
              Inl (MutationError (Some (PStr ''some summary'')))"
    by blast
  from issued r1 r2 show ?thesis by blast
qed

subsection \<open>Queries return the deserialised payload\<close>

lemma query_outcome:
  assumes "Executed c doc (Inr result) \<in> set (events (hydrawise_query env sel) s)"
  shows "fst (hydrawise_query env sel s) = Inr result"
proof -
  from query_executed [OF assms] obtain t w where
    tok: "token env (auth (self s)) (remote s) = (Inr t, w)" and
    doc: "doc = DSLQuery sel" and
    res: "Inr result = fst (execute env (client_for t) (DSLQuery sel) w)"
    by auto
  show ?thesis
    by (simp add: query_result tok res [symmetric])
qed

lemma query_then:
  assumes "\<And>s. m s = (case hydrawise_query env sel s of
                     (Inl e, s1) \<Rightarrow> (Inl e, s1) | (Inr result, s1) \<Rightarrow> (f result, s1))"
    and "Executed c doc (Inr result) \<in> set (events m s)"
  shows "fst (m s) = f result"
proof -
  have "snd (m s) = snd (hydrawise_query env sel s)"
    by (simp add: assms(1) split: prod.splits sum.splits)
  then have "events m s = events (hydrawise_query env sel) s"
    by (simp add: events_def)
  with assms(2) have "Executed c doc (Inr result) \<in> set (events (hydrawise_query env sel) s)"
    by simp
  from query_outcome [OF this] have "fst (hydrawise_query env sel s) = Inr result" .
  then show ?thesis
    by (cases "hydrawise_query env sel s") (simp add: assms(1))
qed

text \<open>
  Claim C5. When the server answered a query with a result that has the method's key
  path, the method returns what the deserialiser makes of the payload found there:
  \<^verbatim>\<open>get_user\<close> of \<^verbatim>\<open>result["me"]\<close> as \<^verbatim>\<open>User\<close>, \<^verbatim>\<open>get_controllers\<close> of
  \<^verbatim>\<open>result["me"]["controllers"]\<close> as a list of \<^verbatim>\<open>Controller\<close>, \<^verbatim>\<open>get_controller\<close> of
  \<^verbatim>\<open>result["controller"]\<close> as \<^verbatim>\<open>Controller\<close>, \<^verbatim>\<open>get_zones\<close> of
  \<^verbatim>\<open>result["controller"]["zones"]\<close> as a list of \<^verbatim>\<open>Zone\<close>, and \<^verbatim>\<open>get_zone\<close> of
  \<^verbatim>\<open>result["zone"]\<close> as \<^verbatim>\<open>Zone\<close>.
\<close>

theorem queries_deserialize_payload:
  "(Executed c doc (Inr result) \<in> set (events (get_user env) s) \<and>
      getitem result ''me'' = Inr v \<longrightarrow>
      fst (get_user env s) = deserialize env User v) \<and>
   (Executed c doc (Inr result) \<in> set (events (get_controllers env) s) \<and>
      getitem result ''me'' = Inr u \<and> getitem u ''controllers'' = Inr v \<longrightarrow>
      fst (get_controllers env s) = deserialize env (ListOf Controller) v) \<and>
   (Executed c doc (Inr result) \<in> set (events (get_controller env i) s) \<and>
      getitem result ''controller'' = Inr v \<longrightarrow>
      fst (get_controller env i s) = deserialize env Controller v) \<and>
   (Executed c doc (Inr result) \<in> set (events (get_zones env ctl) s) \<and>
      getitem result ''controller'' = Inr u \<and> getitem u ''zones'' = Inr v \<longrightarrow>
      fst (get_zones env ctl s) = deserialize env (ListOf Zone) v) \<and>
   (Executed c doc (Inr result) \<in> set (events (get_zone env i) s) \<and>
      getitem result ''zone'' = Inr v \<longrightarrow>
      fst (get_zone env i s) = deserialize env Zone v)"
proof (intro conjI impI)
  assume "Executed c doc (Inr result) \<in> set (events (get_user env) s) \<and>
      getitem result ''me'' = Inr v"
  then show "fst (get_user env s) = deserialize env User v"
    using query_then [where m="get_user env" and env=env and s=s and c=c and doc=doc and result=result, OF get_user_def] by simp
next
  assume "Executed c doc (Inr result) \<in> set (events (get_controllers env) s) \<and>
      getitem result ''me'' = Inr u \<and> getitem u ''controllers'' = Inr v"
  then show "fst (get_controllers env s) = deserialize env (ListOf Controller) v"
    using query_then [where m="get_controllers env" and env=env and s=s and c=c and doc=doc and result=result, OF get_controllers_def]
    by simp
next
  assume "Executed c doc (Inr result) \<in> set (events (get_controller env i) s) \<and>
      getitem result ''controller'' = Inr v"
  then show "fst (get_controller env i s) = deserialize env Controller v"
    using query_then [where m="get_controller env i" and env=env and s=s and c=c and doc=doc and result=result, OF get_controller_def]
    by simp
next
  assume "Executed c doc (Inr result) \<in> set (events (get_zones env ctl) s) \<and>
      getitem result ''controller'' = Inr u \<and> getitem u ''zones'' = Inr v"
  then show "fst (get_zones env ctl s) = deserialize env (ListOf Zone) v"
    using query_then [where m="get_zones env ctl" and env=env and s=s and c=c and doc=doc and result=result, OF get_zones_def]
    by simp
next
  assume "Executed c doc (Inr result) \<in> set (events (get_zone env i) s) \<and>
      getitem result ''zone'' = Inr v"
  then show "fst (get_zone env i s) = deserialize env Zone v"
    using query_then [where m="get_zone env i" and env=env and s=s and c=c and doc=doc and result=result, OF get_zone_def]
    by simp
qed

text \<open>One answer holding all three entries, read by the five queries.\<close>

theorem queries_deserialize_payload_witness:
  "fst (get_user (scripted (PDict [(''me'', PDict [(''controllers'', PList [PInt 1])]),
          (''controller'', PDict [(''zones'', PList [PInt 2])]), (''zone'', PInt 3)])) start) =
     Inr (PDict [(''controllers'', PList [PInt 1])]) \<and>
   fst (get_controllers (scripted (PDict [(''me'', PDict [(''controllers'', PList [PInt 1])]),
          (''controller'', PDict [(''zones'', PList [PInt 2])]), (''zone'', PInt 3)])) start) =
     Inr (PList [PInt 1]) \<and>
   fst (get_controller (scripted (PDict [(''me'', PDict [(''controllers'', PList [PInt 1])]),
          (''controller'', PDict [(''zones'', PList [PInt 2])]), (''zone'', PInt 3)])) 8 start) =
     Inr (PDict [(''zones'', PList [PInt 2])]) \<and>
   fst (get_zones (scripted (PDict [(''me'', PDict [(''controllers'', PList [PInt 1])]),
          (''controller'', PDict [(''zones'', PList [PInt 2])]), (''zone'', PInt 3)]))
          \<lparr>controller_id = 8\<rparr> start) =
     Inr (PList [PInt 2]) \<and>
   fst (get_zone (scripted (PDict [(''me'', PDict [(''controllers'', PList [PInt 1])]),
          (''controller'', PDict [(''zones'', PList [PInt 2])]), (''zone'', PInt 3)])) 8 start) =
     Inr (PInt 3)"
proof -
  let ?r = "PDict [(''me'', PDict [(''controllers'', PList [PInt 1])]),
          (''controller'', PDict [(''zones'', PList [PInt 2])]), (''zone'', PInt 3)]"
  let ?c = "client_for ''token''"
  let ?ctl = "\<lparr>controller_id = 8\<rparr>"
  let ?q1 = "DSLQuery (select (schema_field ''Query'' ''me'') (get_selectors (scripted ?r) User))"
  let ?q2 = "DSLQuery (select (schema_field ''Query'' ''me'')
                [select (schema_field ''User'' ''controllers'')
                   (get_selectors (scripted ?r) Controller)])"
  let ?q3 = "DSLQuery (select (with_args (schema_field ''Query'' ''controller'')
                        [(''controllerId'', PInt 8)]) (get_selectors (scripted ?r) Controller))"
  let ?q4 = "DSLQuery (select (with_args (schema_field ''Query'' ''controller'')
                        [(''controllerId'', PInt (controller_id ?ctl))])
                [select (schema_field ''Controller'' ''zones'')
                   (get_selectors (scripted ?r) Zone)])"
  let ?q5 = "DSLQuery (select (with_args (schema_field ''Query'' ''zone'')
                        [(''zoneId'', PInt 8)]) (get_selectors (scripted ?r) Zone))"
  have d: "deserialize (scripted ?r) t v = Inr v" for t v
    by (simp add: scripted_def)
  have e1: "Executed ?c ?q1 (Inr ?r) \<in> set (events (get_user (scripted ?r)) start)"
    by (rule scripted_query_executed) (simp add: get_user_def split: prod.splits sum.splits)
  have e2: "Executed ?c ?q2 (Inr ?r) \<in> set (events (get_controllers (scripted ?r)) start)"
    by (rule scripted_query_executed) (simp add: get_controllers_def split: prod.splits sum.splits)
  have e3: "Executed ?c ?q3 (Inr ?r) \<in> set (events (get_controller (scripted ?r) 8) start)"
    by (rule scripted_query_executed) (simp add: get_controller_def split: prod.splits sum.splits)
  have e4: "Executed ?c ?q4 (Inr ?r) \<in> set (events (get_zones (scripted ?r) ?ctl) start)"
    by (rule scripted_query_executed) (simp add: get_zones_def split: prod.splits sum.splits)
  have e5: "Executed ?c ?q5 (Inr ?r) \<in> set (events (get_zone (scripted ?r) 8) start)"
    by (rule scripted_query_executed) (simp add: get_zone_def split: prod.splits sum.splits)
  have g1: "getitem ?r ''me'' = Inr (PDict [(''controllers'', PList [PInt 1])])" by simp
  have g2: "getitem (PDict [(''controllers'', PList [PInt 1])]) ''controllers'' = Inr (PList [PInt 1])"
    by simp
  have g3: "getitem ?r ''controller'' = Inr (PDict [(''zones'', PList [PInt 2])])" by simp
  have g4: "getitem (PDict [(''zones'', PList [PInt 2])]) ''zones'' = Inr (PList [PInt 2])"
    by simp
  have g5: "getitem ?r ''zone'' = Inr (PInt 3)" by simp
  from queries_deserialize_payload [where env = "scripted ?r" and s = start and c = ?c
      and doc = ?q1 and result = ?r and v = "PDict [(''controllers'', PList [PInt 1])]"] e1 g1
  have r1: "fst (get_user (scripted ?r) start) = Inr (PDict [(''controllers'', PList [PInt 1])])"
    by (simp add: d)
  from queries_deserialize_payload [where env = "scripted ?r" and s = start and c = ?c
      and doc = ?q2 and result = ?r and u = "PDict [(''controllers'', PList [PInt 1])]"
      and v = "PList [PInt 1]"] e2 g1 g2
  have r2: "fst (get_controllers (scripted ?r) start) = Inr (PList [PInt 1])"
    by (simp add: d)
  from queries_deserialize_payload [where env = "scripted ?r" and s = start and c = ?c
      and doc = ?q3 and result = ?r and i = 8 and v = "PDict [(''zones'', PList [PInt 2])]"] e3 g3
  have r3: "fst (get_controller (scripted ?r) 8 start) = Inr (PDict [(''zones'', PList [PInt 2])])"
    by (simp add: d)
  from queries_deserialize_payload [where env = "scripted ?r" and s = start and c = ?c
      and doc = ?q4 and result = ?r and ctl = ?ctl and u = "PDict [(''zones'', PList [PInt 2])]"
      and v = "PList [PInt 2]"] e4 g3 g4
  have r4: "fst (get_zones (scripted ?r) ?ctl start) = Inr (PList [PInt 2])"
    by (simp add: d)
  from queries_deserialize_payload [where env = "scripted ?r" and s = start and c = ?c
      and doc = ?q5 and result = ?r and i = 8 and v = "PInt 3"] e5 g5
  have r5: "fst (get_zone (scripted ?r) 8 start) = Inr (PInt 3)"
    by (simp add: d)
  from r1 r2 r3 r4 r5 show ?thesis by blast
qed

subsection \<open>The timestamp of a suspension\<close>





subsection \<open>One token and one session for each call\<close>



subsection \<open>Calls leave the client as it was\<close>

text \<open>
  Claim C8. The constructed client stores the authentication reference and nothing
  else; no call changes the client object, and neither the result of a call nor what it
  does to the collaborators depends on what the client did before.
\<close>

theorem calls_are_stateless:
  "init a = \<lparr>auth = a\<rparr> \<and>
   self (snd (invoke env call s)) = self s \<and>
   fst (invoke env call (s\<lparr>trace := tr\<rparr>)) = fst (invoke env call s) \<and>
   remote (snd (invoke env call (s\<lparr>trace := tr\<rparr>))) = remote (snd (invoke env call s))"
proof (cases "is_mutation call")
  case True
  from invoke_mutation [OF True] obtain sel where
    inv: "\<forall>s. invoke env call s = returning_none (hydrawise_mutation env sel s)"
    by blast
  show ?thesis
    by (simp add: init_def inv mutation_self mutation_remote fst_returning_none mutation_result)
next
  case False
  from invoke_query [OF False] obtain sel f where
    inv: "\<forall>s. invoke env call s =
       (case hydrawise_query env sel s of
          (Inl e, s1) \<Rightarrow> (Inl e, s1)
        | (Inr result, s1) \<Rightarrow> (f result, s1))"
    by blast
  show ?thesis
    by (simp add: init_def inv after_query_snd after_query_fst query_self query_remote query_result)
qed

text \<open>A stop request on a fresh client, and on one with an earlier call behind it.\<close>

theorem calls_are_stateless_witness:
  "self (snd (invoke (scripted PNone) (StopZone \<lparr>zone_id = 42\<rparr>) start)) = \<lparr>auth = 7\<rparr> \<and>
   fst (invoke (scripted PNone) (StopZone \<lparr>zone_id = 42\<rparr>)
          (start\<lparr>trace := [AuthToken (Inr ''earlier'')]\<rparr>)) =
     fst (invoke (scripted PNone) (StopZone \<lparr>zone_id = 42\<rparr>) start)"
  using calls_are_stateless [of 7 "scripted PNone" "StopZone \<lparr>zone_id = 42\<rparr>" start
      "[AuthToken (Inr ''earlier'')]"]
  by (simp add: start_def init_def)

subsection \<open>Unguarded keys of the envelope\<close>



subsection \<open>Negative durations and the flags\<close>



end
